theory Spec2Isabelle
  imports Complex_Main "HOL-Library.Sublist" "HOL-Library.Log_Nat"
begin

section \<open>JavaScript numbers\<close>

text \<open>
  Every quantity of \<^verbatim>\<open>src/App.tsx\<close> is a JavaScript \<^verbatim>\<open>number\<close>. A finite number is
  modelled by a rational \<open>Fin q\<close> (the two zeros are one); the three non-finite values are
  kept, because JavaScript never raises on a division by zero: it returns \<open>Infinity\<close>,
  \<open>-Infinity\<close> or \<open>NaN\<close>. The operations below are exact. The geometry uses them as they
  are, so the rounding of IEEE doubles is not modelled there. The preview scaler is
  different, because the canvas truncates what it is given and a last bit can decide
  the integer; there each division and product is followed by \<open>to_double\<close>, defined
  further down.
\<close>

datatype jsnum = Fin rat | PInf | NInf | NaN

fun inf_of_sign :: "rat \<Rightarrow> jsnum" where
  "inf_of_sign s = (if 0 < s then PInf else if s < 0 then NInf else NaN)"

fun sign_of :: "jsnum \<Rightarrow> rat" where
  "sign_of (Fin a) = sgn a"
| "sign_of PInf = 1"
| "sign_of NInf = - 1"
| "sign_of NaN = 0"

fun js_neg :: "jsnum \<Rightarrow> jsnum" where
  "js_neg (Fin a) = Fin (- a)"
| "js_neg PInf = NInf"
| "js_neg NInf = PInf"
| "js_neg NaN = NaN"

fun js_add :: "jsnum \<Rightarrow> jsnum \<Rightarrow> jsnum" where
  "js_add NaN _ = NaN"
| "js_add _ NaN = NaN"
| "js_add (Fin a) (Fin b) = Fin (a + b)"
| "js_add PInf NInf = NaN"
| "js_add NInf PInf = NaN"
| "js_add PInf _ = PInf"
| "js_add _ PInf = PInf"
| "js_add NInf _ = NInf"
| "js_add _ NInf = NInf"

definition js_sub :: "jsnum \<Rightarrow> jsnum \<Rightarrow> jsnum" where
  "js_sub a b = js_add a (js_neg b)"

fun js_mul :: "jsnum \<Rightarrow> jsnum \<Rightarrow> jsnum" where
  "js_mul NaN _ = NaN"
| "js_mul _ NaN = NaN"
| "js_mul (Fin a) (Fin b) = Fin (a * b)"
| "js_mul a b = inf_of_sign (sign_of a * sign_of b)"

fun js_div :: "jsnum \<Rightarrow> jsnum \<Rightarrow> jsnum" where
  "js_div NaN _ = NaN"
| "js_div _ NaN = NaN"
| "js_div (Fin a) (Fin b) = (if b = 0 then inf_of_sign (sgn a) else Fin (a / b))"
| "js_div (Fin a) _ = Fin 0"
| "js_div a (Fin b) = inf_of_sign (sign_of a * (if b < 0 then - 1 else 1))"
| "js_div _ _ = NaN"

text \<open>The order of the non-\<open>NaN\<close> values, and \<^verbatim>\<open>Math.min\<close> and \<^verbatim>\<open>Math.max\<close>, which
  return \<open>NaN\<close> as soon as one argument is \<open>NaN\<close>.\<close>

fun js_le :: "jsnum \<Rightarrow> jsnum \<Rightarrow> bool" where
  "js_le NaN _ = False"
| "js_le _ NaN = False"
| "js_le NInf _ = True"
| "js_le _ PInf = True"
| "js_le (Fin a) (Fin b) = (a \<le> b)"
| "js_le _ _ = False"

definition Math_min :: "jsnum \<Rightarrow> jsnum \<Rightarrow> jsnum" where
  "Math_min a b = (if a = NaN \<or> b = NaN then NaN else if js_le a b then a else b)"

definition Math_max :: "jsnum \<Rightarrow> jsnum \<Rightarrow> jsnum" where
  "Math_max a b = (if a = NaN \<or> b = NaN then NaN else if js_le a b then b else a)"

fun is_finite :: "jsnum \<Rightarrow> bool" where
  "is_finite (Fin _) = True"
| "is_finite _ = False"

subsection \<open>Rounding to a double\<close>

text \<open>
  The nearest double of a rational: for \<open>x > 0\<close> with \<open>2 ^ e \<le> x < 2 ^ (e + 1)\<close> the doubles
  around \<open>x\<close> are the multiples of \<open>2 ^ (e - 52)\<close>, and \<open>x\<close> is rounded to the nearest one, a
  tie going to the even multiple. \<open>binade\<close> computes \<open>e\<close> from the bit length of an integer
  next to \<open>x\<close> or to \<open>1 / x\<close>. The exponent is not bounded: overflow to \<open>Infinity\<close> and
  subnormal numbers are not modelled, and no value of the preview scaler comes near
  either.
\<close>

definition round_half_even :: "rat \<Rightarrow> int" where
  "round_half_even y =
    (let f = \<lfloor>y\<rfloor>; r = y - of_int f
     in if r < 1 / 2 then f else if 1 / 2 < r then f + 1 else if even f then f else f + 1)"

definition binade :: "rat \<Rightarrow> int" where
  "binade x = (if 1 \<le> x then bitlen \<lfloor>x\<rfloor> - 1 else - bitlen (\<lceil>1 / x\<rceil> - 1))"

definition nearest_double_pos :: "rat \<Rightarrow> rat" where
  "nearest_double_pos x =
    (let q = power_int 2 (binade x - 52) in of_int (round_half_even (x / q)) * q)"

definition nearest_double :: "rat \<Rightarrow> rat" where
  "nearest_double x =
    (if x = 0 then 0 else if 0 < x then nearest_double_pos x else - nearest_double_pos (- x))"

fun to_double :: "jsnum \<Rightarrow> jsnum" where
  "to_double (Fin q) = Fin (nearest_double q)"
| "to_double a = a"

subsection \<open>The size attributes of a canvas\<close>

text \<open>
  The \<^verbatim>\<open>width\<close> and \<^verbatim>\<open>height\<close> of a canvas element are attributes of type
  \<^verbatim>\<open>unsigned long\<close>. A number assigned to one is converted as the platform converts
  every number to that type: a non-finite value becomes 0, a finite one is truncated
  toward zero and taken modulo \<open>2 ^ 32\<close>; a result above \<open>2 ^ 31 - 1\<close> is replaced by the
  default of the attribute.
\<close>

fun toUnsignedLong :: "jsnum \<Rightarrow> nat" where
  "toUnsignedLong (Fin q) = nat ((if 0 \<le> q then \<lfloor>q\<rfloor> else \<lceil>q\<rceil>) mod 4294967296)"
| "toUnsignedLong _ = 0"

definition setCanvasSize :: "nat \<Rightarrow> jsnum \<Rightarrow> nat" where
  "setCanvasSize dflt v = (let n = toUnsignedLong v in if n \<le> 2147483647 then n else dflt)"

section \<open>Data model\<close>

text \<open>
  The interfaces \<^verbatim>\<open>ImageData\<close> and \<^verbatim>\<open>LogoSettings\<close> (lines 4 to 20). Field names carry
  a prefix (\<open>img_\<close>, \<open>ls_\<close>), since a record field is a constant of the theory. A \<^verbatim>\<open>File\<close> is
  what the browser hands over: its MIME type, the data URL that the \<^verbatim>\<open>FileReader\<close>
  produces, and the outcome of decoding it in an \<^verbatim>\<open>Image\<close> element: \<open>None\<close> when the
  \<^verbatim>\<open>onload\<close> handler never fires, \<open>Some (w, h)\<close> for \<^verbatim>\<open>img.width\<close> and \<^verbatim>\<open>img.height\<close>.
\<close>

record File =
  file_type :: string
  file_dataURL :: string
  file_decoded :: "(jsnum \<times> jsnum) option"

record ImageData =
  img_file :: File
  img_url :: string
  img_width :: jsnum
  img_height :: jsnum

record LogoSettings =
  ls_x :: jsnum
  ls_y :: jsnum
  ls_width :: jsnum
  ls_height :: jsnum
  ls_opacity :: jsnum
  ls_sizePercentage :: jsnum
  ls_margin :: jsnum
  ls_position :: string

text \<open>The type \<^verbatim>\<open>PositionPreset\<close> (line 22) and the table \<^verbatim>\<open>positionPresets\<close> (lines 41 to
  51), whose keys are the strings the preset buttons pass on.\<close>

datatype PositionPreset = TL | TC | TR | CL | C | CR | BL | BC | BR

fun key :: "PositionPreset \<Rightarrow> string" where
  "key TL = ''TL''"
| "key TC = ''TC''"
| "key TR = ''TR''"
| "key CL = ''CL''"
| "key C = ''C''"
| "key CR = ''CR''"
| "key BL = ''BL''"
| "key BC = ''BC''"
| "key BR = ''BR''"

definition positionPresets :: "PositionPreset list" where
  "positionPresets = [TL, TC, TR, CL, C, CR, BL, BC, BR]"

section \<open>Geometry\<close>

text \<open>
  \<^verbatim>\<open>calculatePositionFromPreset\<close> (lines 68 to 111). At run time the preset is a string
  (the callers cast the stored \<^verbatim>\<open>position: string\<close>), and the \<^verbatim>\<open>switch\<close> has no default:
  any other string leaves \<open>x = 0, y = 0\<close>. \<open>presetAnchor\<close> is the \<^verbatim>\<open>switch\<close> (lines 69 to
  108), the values of \<open>x\<close> and \<open>y\<close> before the clamp of line 110.
\<close>

definition presetAnchor ::
  "string \<Rightarrow> jsnum \<Rightarrow> jsnum \<Rightarrow> jsnum \<Rightarrow> jsnum \<Rightarrow> jsnum \<Rightarrow> jsnum \<times> jsnum" where
  "presetAnchor preset jewelryWidth jewelryHeight logoWidth logoHeight margin =
    (if preset = ''TL'' then (margin, margin)
     else if preset = ''TC'' then
       (js_div (js_sub jewelryWidth logoWidth) (Fin 2), margin)
     else if preset = ''TR'' then
       (js_sub (js_sub jewelryWidth logoWidth) margin, margin)
     else if preset = ''CL'' then
       (margin, js_div (js_sub jewelryHeight logoHeight) (Fin 2))
     else if preset = ''C'' then
       (js_div (js_sub jewelryWidth logoWidth) (Fin 2),
        js_div (js_sub jewelryHeight logoHeight) (Fin 2))
     else if preset = ''CR'' then
       (js_sub (js_sub jewelryWidth logoWidth) margin,
        js_div (js_sub jewelryHeight logoHeight) (Fin 2))
     else if preset = ''BL'' then
       (margin, js_sub (js_sub jewelryHeight logoHeight) margin)
     else if preset = ''BC'' then
       (js_div (js_sub jewelryWidth logoWidth) (Fin 2),
        js_sub (js_sub jewelryHeight logoHeight) margin)
     else if preset = ''BR'' then
       (js_sub (js_sub jewelryWidth logoWidth) margin,
        js_sub (js_sub jewelryHeight logoHeight) margin)
     else (Fin 0, Fin 0))"

definition calculatePositionFromPreset ::
  "string \<Rightarrow> jsnum \<Rightarrow> jsnum \<Rightarrow> jsnum \<Rightarrow> jsnum \<Rightarrow> jsnum \<Rightarrow> jsnum \<times> jsnum" where
  "calculatePositionFromPreset preset jewelryWidth jewelryHeight logoWidth logoHeight margin =
    (case presetAnchor preset jewelryWidth jewelryHeight logoWidth logoHeight margin of
       (x, y) \<Rightarrow>
         (Math_max (Fin 0) (Math_min x (js_sub jewelryWidth logoWidth)),
          Math_max (Fin 0) (Math_min y (js_sub jewelryHeight logoHeight))))"

text \<open>
  The component state (lines 25 to 39): the two images, the settings, the busy flag and
  the two canvas references. Three more fields record what the component does to the
  outside: the messages shown with \<^verbatim>\<open>alert\<close>, the blobs handed to the browser as downloads,
  and the number of \<^verbatim>\<open>toBlob\<close> callbacks that are still to come.
\<close>

record Canvas =
  cv_width :: nat
  cv_height :: nat

record AppState =
  jewelryImage :: "ImageData option"
  logoImage :: "ImageData option"
  logoSettings :: LogoSettings
  isProcessing :: bool
  canvasRef :: "Canvas option"
  previewCanvasRef :: "Canvas option"
  alerts :: "string list"
  downloads :: "string list"
  pendingBlobs :: nat

text \<open>The state after the first render: the \<^verbatim>\<open>useState\<close> defaults of lines 25 to 37, the
  hidden canvas mounted with the default size of a canvas element, no preview canvas.\<close>

definition initialSettings :: LogoSettings where
  "initialSettings =
    \<lparr>ls_x = Fin 0, ls_y = Fin 0, ls_width = Fin 100, ls_height = Fin 100,
     ls_opacity = Fin 100, ls_sizePercentage = Fin 15, ls_margin = Fin 20,
     ls_position = ''TR''\<rparr>"

definition initialState :: AppState where
  "initialState =
    \<lparr>jewelryImage = None, logoImage = None, logoSettings = initialSettings,
     isProcessing = False,
     canvasRef = Some \<lparr>cv_width = 300, cv_height = 150\<rparr>,
     previewCanvasRef = None, alerts = [], downloads = [], pendingBlobs = 0\<rparr>"

section \<open>Operations on the settings\<close>

text \<open>\<^verbatim>\<open>updateLogoPosition\<close> (lines 113 to 129).\<close>

definition updateLogoPosition :: "string \<Rightarrow> AppState \<Rightarrow> AppState" where
  "updateLogoPosition preset st =
    (case (jewelryImage st, logoImage st) of
       (Some jewelry, Some logo) \<Rightarrow>
         (let logoWidth =
                js_div (js_mul (img_width jewelry) (ls_sizePercentage (logoSettings st))) (Fin 100);
              logoHeight = js_div (js_mul (img_height logo) logoWidth) (img_width logo)
          in case calculatePositionFromPreset preset (img_width jewelry) (img_height jewelry)
                    logoWidth logoHeight (ls_margin (logoSettings st)) of
               (x, y) \<Rightarrow>
                 st\<lparr>logoSettings := (logoSettings st)
                      \<lparr>ls_position := preset, ls_x := x, ls_y := y,
                       ls_width := logoWidth, ls_height := logoHeight\<rparr>\<rparr>)
     | _ \<Rightarrow> st)"

text \<open>\<^verbatim>\<open>updateLogoSize\<close> (lines 131 to 148).\<close>

definition updateLogoSize :: "jsnum \<Rightarrow> AppState \<Rightarrow> AppState" where
  "updateLogoSize percentage st =
    (case (jewelryImage st, logoImage st) of
       (Some jewelry, Some logo) \<Rightarrow>
         (let logoWidth = js_div (js_mul (img_width jewelry) percentage) (Fin 100);
              logoHeight = js_div (js_mul (img_height logo) logoWidth) (img_width logo);
              prev = logoSettings st
          in case calculatePositionFromPreset (ls_position prev) (img_width jewelry)
                    (img_height jewelry) logoWidth logoHeight (ls_margin prev) of
               (x, y) \<Rightarrow>
                 st\<lparr>logoSettings := prev
                      \<lparr>ls_sizePercentage := percentage, ls_width := logoWidth,
                       ls_height := logoHeight, ls_x := x, ls_y := y\<rparr>\<rparr>)
     | _ \<Rightarrow> st)"

text \<open>\<^verbatim>\<open>updateMargin\<close> (lines 150 to 162).\<close>

definition updateMargin :: "jsnum \<Rightarrow> AppState \<Rightarrow> AppState" where
  "updateMargin margin st =
    (case (jewelryImage st, logoImage st) of
       (Some jewelry, Some logo) \<Rightarrow>
         (let prev = logoSettings st
          in case calculatePositionFromPreset (ls_position prev) (img_width jewelry)
                    (img_height jewelry) (ls_width prev) (ls_height prev) margin of
               (x, y) \<Rightarrow>
                 st\<lparr>logoSettings := prev\<lparr>ls_margin := margin, ls_x := x, ls_y := y\<rparr>\<rparr>)
     | _ \<Rightarrow> st)"

text \<open>The \<^verbatim>\<open>onChange\<close> handler of the opacity slider (line 488), applied to the parsed
  value of the slider.\<close>

definition setOpacity :: "jsnum \<Rightarrow> AppState \<Rightarrow> AppState" where
  "setOpacity v st = st\<lparr>logoSettings := (logoSettings st)\<lparr>ls_opacity := v\<rparr>\<rparr>"

text \<open>\<^verbatim>\<open>resetPosition\<close> (lines 279 to 281).\<close>

definition resetPosition :: "AppState \<Rightarrow> AppState" where
  "resetPosition st = updateLogoPosition ''TR'' st"

section \<open>Upload, preview and export\<close>

text \<open>
  \<^verbatim>\<open>handleFileUpload\<close> (lines 164 to 190). The chain of callbacks (reader, then image) is
  one step here: when the image loads, the slot of the given type is replaced.
\<close>

datatype UploadType = Jewelry | Logo

definition handleFileUpload :: "File \<Rightarrow> UploadType \<Rightarrow> AppState \<Rightarrow> AppState" where
  "handleFileUpload file type st =
    (if \<not> prefix ''image/'' (file_type file)
     then st\<lparr>alerts := alerts st @ [''Please upload a valid image file'']\<rparr>
     else case file_decoded file of
       None \<Rightarrow> st
     | Some (w, h) \<Rightarrow>
         (let imageData =
                \<lparr>img_file = file, img_url = file_dataURL file, img_width = w, img_height = h\<rparr>
          in if type = Jewelry then st\<lparr>jewelryImage := Some imageData\<rparr>
             else st\<lparr>logoImage := Some imageData\<rparr>))"

text \<open>
  \<^verbatim>\<open>updatePreviewCanvas\<close> (lines 240 to 257); the 2d context of the preview canvas is
  taken to exist. The width and height read from the source canvas are integers; the
  two quotients and the two products are doubles; the products are assigned to the width
  and height of the preview canvas, which converts them. The drawing of line 256 is not
  modelled.
\<close>

definition updatePreviewCanvas :: "AppState \<Rightarrow> AppState" where
  "updatePreviewCanvas st =
    (case (canvasRef st, previewCanvasRef st) of
       (Some sourceCanvas, Some previewCanvas) \<Rightarrow>
         (let maxWidth = Fin 400;
              sourceWidth = Fin (of_nat (cv_width sourceCanvas));
              sourceHeight = Fin (of_nat (cv_height sourceCanvas));
              scale = Math_min (to_double (js_div maxWidth sourceWidth))
                               (to_double (js_div maxWidth sourceHeight));
              previewWidth = to_double (js_mul sourceWidth scale);
              previewHeight = to_double (js_mul sourceHeight scale)
          in st\<lparr>previewCanvasRef :=
                  Some (previewCanvas\<lparr>cv_width := setCanvasSize 300 previewWidth,
                                       cv_height := setCanvasSize 150 previewHeight\<rparr>)\<rparr>)
     | _ \<Rightarrow> st)"

text \<open>
  \<^verbatim>\<open>downloadImage\<close> (lines 259 to 277) in two halves: the call itself, which sets the busy
  flag and asks the canvas for a blob, and the callback given to \<^verbatim>\<open>toBlob\<close>, which receives
  the blob or \<^verbatim>\<open>null\<close>.
\<close>

definition downloadImage :: "AppState \<Rightarrow> AppState" where
  "downloadImage st =
    (case canvasRef st of
       None \<Rightarrow> st
     | Some canvas \<Rightarrow> st\<lparr>isProcessing := True, pendingBlobs := Suc (pendingBlobs st)\<rparr>)"

definition toBlobCallback :: "string option \<Rightarrow> AppState \<Rightarrow> AppState" where
  "toBlobCallback blob st =
    (let st1 = (case blob of
                  Some b \<Rightarrow> st\<lparr>downloads := downloads st @ [b]\<rparr>
                | None \<Rightarrow> st)
     in st1\<lparr>isProcessing := False, pendingBlobs := pendingBlobs st1 - 1\<rparr>)"

section \<open>Events\<close>

text \<open>
  The effect of lines 283 to 287 runs after a render in which one of its dependencies
  changed: an image, or \<^verbatim>\<open>updateLogoPosition\<close>, which is rebuilt when an image, the size
  percentage or the margin changes. An upload that stores an image always stores a new
  object, so the effect runs after it.
\<close>

definition placementEffect :: "AppState \<Rightarrow> AppState" where
  "placementEffect st =
    (if jewelryImage st \<noteq> None \<and> logoImage st \<noteq> None
     then updateLogoPosition (ls_position (logoSettings st)) st else st)"

definition imageStored :: "File \<Rightarrow> bool" where
  "imageStored file \<longleftrightarrow> prefix ''image/'' (file_type file) \<and> file_decoded file \<noteq> None"

definition afterRender :: "AppState \<Rightarrow> AppState \<Rightarrow> AppState" where
  "afterRender old new =
    (if ls_sizePercentage (logoSettings new) \<noteq> ls_sizePercentage (logoSettings old)
        \<or> ls_margin (logoSettings new) \<noteq> ls_margin (logoSettings old)
     then placementEffect new else new)"

text \<open>
  The events of the component. The two file inputs are always there; the preset buttons,
  the three sliders, the reset button and the download button are rendered only when
  both images are present (lines 411 and 547), and the download button is disabled
  while the busy flag is set (line 550). A \<^verbatim>\<open>toBlob\<close> callback arrives only when one is
  outstanding.
\<close>

datatype Event =
    FileUpload File UploadType
  | PresetClick PositionPreset
  | SizeChange jsnum
  | OpacityChange jsnum
  | MarginChange jsnum
  | ResetClick
  | DownloadClick
  | BlobCallback "string option"

text \<open>
  The drawing effect (lines 207 to 238 and 289 to 291) changes only the canvases and is
  not part of a step.
\<close>

definition controlsRendered :: "AppState \<Rightarrow> bool" where
  "controlsRendered st \<longleftrightarrow> jewelryImage st \<noteq> None \<and> logoImage st \<noteq> None"

fun step :: "Event \<Rightarrow> AppState \<Rightarrow> AppState" where
  "step (FileUpload file type) st =
    (if imageStored file then placementEffect (handleFileUpload file type st)
     else handleFileUpload file type st)"
| "step (PresetClick p) st =
    (if controlsRendered st then updateLogoPosition (key p) st else st)"
| "step (SizeChange v) st =
    (if controlsRendered st then afterRender st (updateLogoSize v st) else st)"
| "step (OpacityChange v) st =
    (if controlsRendered st then setOpacity v st else st)"
| "step (MarginChange v) st =
    (if controlsRendered st then afterRender st (updateMargin v st) else st)"
| "step ResetClick st =
    (if controlsRendered st then resetPosition st else st)"
| "step DownloadClick st =
    (if controlsRendered st \<and> \<not> isProcessing st then downloadImage st else st)"
| "step (BlobCallback blob) st =
    (if 0 < pendingBlobs st then toBlobCallback blob st else st)"

fun run :: "Event list \<Rightarrow> AppState \<Rightarrow> AppState" where
  "run [] st = st"
| "run (e # es) st = run es (step e st)"

section \<open>The formulas of the specification\<close>

text \<open>
  The geometry as the specification words it, over exact rationals: the logo width is
  \<open>baseW * sizePercentage / 100\<close>, the logo height \<open>logoNaturalH * logoWidth / logoNaturalW\<close>;
  a preset is a vertical letter (T, C, B) followed by a horizontal one (L, C, R), the lone
  \<open>C\<close> being the centre in both directions.
\<close>

definition spec_logoWidth :: "rat \<Rightarrow> rat \<Rightarrow> rat" where
  "spec_logoWidth baseW sizePercentage = baseW * sizePercentage / 100"

definition spec_logoHeight :: "rat \<Rightarrow> rat \<Rightarrow> rat \<Rightarrow> rat" where
  "spec_logoHeight logoNaturalH logoWidth logoNaturalW = logoNaturalH * logoWidth / logoNaturalW"

datatype HAlign = HLeft | HCenter | HRight

datatype VAlign = VTop | VMiddle | VBottom

fun spec_horizontal :: "PositionPreset \<Rightarrow> HAlign" where
  "spec_horizontal TL = HLeft"
| "spec_horizontal TC = HCenter"
| "spec_horizontal TR = HRight"
| "spec_horizontal CL = HLeft"
| "spec_horizontal C = HCenter"
| "spec_horizontal CR = HRight"
| "spec_horizontal BL = HLeft"
| "spec_horizontal BC = HCenter"
| "spec_horizontal BR = HRight"

fun spec_vertical :: "PositionPreset \<Rightarrow> VAlign" where
  "spec_vertical TL = VTop"
| "spec_vertical TC = VTop"
| "spec_vertical TR = VTop"
| "spec_vertical CL = VMiddle"
| "spec_vertical C = VMiddle"
| "spec_vertical CR = VMiddle"
| "spec_vertical BL = VBottom"
| "spec_vertical BC = VBottom"
| "spec_vertical BR = VBottom"

fun spec_anchor_x :: "HAlign \<Rightarrow> rat \<Rightarrow> rat \<Rightarrow> rat \<Rightarrow> rat" where
  "spec_anchor_x HLeft baseW logoW margin = margin"
| "spec_anchor_x HCenter baseW logoW margin = (baseW - logoW) / 2"
| "spec_anchor_x HRight baseW logoW margin = baseW - logoW - margin"

fun spec_anchor_y :: "VAlign \<Rightarrow> rat \<Rightarrow> rat \<Rightarrow> rat \<Rightarrow> rat" where
  "spec_anchor_y VTop baseH logoH margin = margin"
| "spec_anchor_y VMiddle baseH logoH margin = (baseH - logoH) / 2"
| "spec_anchor_y VBottom baseH logoH margin = baseH - logoH - margin"




text \<open>
  The preview size as the specification words it: the scale is the smaller of the two
  quotients, and both products are rounded to the nearest integer.
\<close>

definition spec_previewSize :: "rat \<Rightarrow> rat \<Rightarrow> rat \<Rightarrow> int \<times> int" where
  "spec_previewSize maxDim w h =
    (let scale = min (maxDim / w) (maxDim / h) in (round (w * scale), round (h * scale)))"

text \<open>An error is reported to the user when a new message is shown with \<^verbatim>\<open>alert\<close>, the only
  channel the component has (line 166).\<close>

definition errorReported :: "AppState \<Rightarrow> AppState \<Rightarrow> bool" where
  "errorReported before after \<longleftrightarrow> alerts after \<noteq> alerts before"

text \<open>The busy flag is set exactly while one \<^verbatim>\<open>toBlob\<close> callback is outstanding.\<close>

definition exportInvariant :: "AppState \<Rightarrow> bool" where
  "exportInvariant st \<longleftrightarrow> pendingBlobs st = (if isProcessing st then 1 else 0)"

text \<open>The nine preset tokens.\<close>

definition presetKeys :: "string list" where
  "presetKeys = map key positionPresets"

section \<open>Concrete inputs\<close>

text \<open>A PNG file that decodes to the given size, the image record the upload builds from
  it, and the state of the scenario of the specification: a base of 1000 by 800 and a
  logo of 200 by 100 under the default settings.\<close>

definition sampleFile :: "string \<Rightarrow> rat \<Rightarrow> rat \<Rightarrow> File" where
  "sampleFile name w h =
    \<lparr>file_type = ''image/png'', file_dataURL = name, file_decoded = Some (Fin w, Fin h)\<rparr>"

definition sampleImage :: "string \<Rightarrow> rat \<Rightarrow> rat \<Rightarrow> ImageData" where
  "sampleImage name w h =
    \<lparr>img_file = sampleFile name w h, img_url = name, img_width = Fin w, img_height = Fin h\<rparr>"

definition scenarioState :: AppState where
  "scenarioState =
    initialState\<lparr>jewelryImage := Some (sampleImage ''base'' 1000 800),
                 logoImage := Some (sampleImage ''logo'' 200 100)\<rparr>"




text \<open>A state with a source canvas of the given size and a mounted preview canvas.\<close>

definition previewState :: "nat \<Rightarrow> nat \<Rightarrow> AppState" where
  "previewState w h =
    initialState\<lparr>canvasRef := Some \<lparr>cv_width = w, cv_height = h\<rparr>,
                 previewCanvasRef := Some \<lparr>cv_width = 300, cv_height = 150\<rparr>\<rparr>"

section \<open>Arithmetic on finite numbers\<close>

lemma js_sub_Fin: "js_sub (Fin a) (Fin b) = Fin (a - b)"
  by (simp add: js_sub_def)

lemma Math_min_Fin: "Math_min (Fin a) (Fin b) = Fin (min a b)"
  by (simp add: Math_min_def min_def)

lemma Math_max_Fin: "Math_max (Fin a) (Fin b) = Fin (max a b)"
  by (simp add: Math_max_def max_def)

lemma is_finite_iff: "is_finite a \<longleftrightarrow> (\<exists>q. a = Fin q)"
  by (cases a) simp_all

lemma logoWidth_Fin:
  "js_div (js_mul (Fin baseW) (Fin sizePercentage)) (Fin 100) =
     Fin (spec_logoWidth baseW sizePercentage)"
  by (simp add: spec_logoWidth_def)

lemma logoHeight_Fin:
  "logoNaturalW \<noteq> 0 \<Longrightarrow>
   js_div (js_mul (Fin logoNaturalH) (Fin logoW)) (Fin logoNaturalW) =
     Fin (spec_logoHeight logoNaturalH logoW logoNaturalW)"
  by (simp add: spec_logoHeight_def)

section \<open>The anchor and the clamp\<close>

lemma presetAnchor_Fin:
  "presetAnchor (key p) (Fin baseW) (Fin baseH) (Fin logoW) (Fin logoH) (Fin margin) =
     (Fin (spec_anchor_x (spec_horizontal p) baseW logoW margin),
      Fin (spec_anchor_y (spec_vertical p) baseH logoH margin))"
  by (cases p) (simp_all add: presetAnchor_def js_sub_Fin)

lemma presetAnchor_is_finite:
  "is_finite (fst (presetAnchor preset (Fin baseW) (Fin baseH) (Fin logoW) (Fin logoH) (Fin margin)))
   \<and> is_finite (snd (presetAnchor preset (Fin baseW) (Fin baseH) (Fin logoW) (Fin logoH) (Fin margin)))"
  by (simp add: presetAnchor_def js_sub_Fin)

lemma presetAnchor_finite:
  "\<exists>ax ay. presetAnchor preset (Fin baseW) (Fin baseH) (Fin logoW) (Fin logoH) (Fin margin) =
     (Fin ax, Fin ay)"
  using presetAnchor_is_finite [of preset baseW baseH logoW logoH margin]
  by (metis is_finite_iff prod.collapse)

lemma calculatePosition_Fin:
  assumes "presetAnchor preset (Fin baseW) (Fin baseH) (Fin logoW) (Fin logoH) (Fin margin) =
    (Fin ax, Fin ay)"
  shows "calculatePositionFromPreset preset (Fin baseW) (Fin baseH) (Fin logoW) (Fin logoH)
      (Fin margin) =
     (Fin (max 0 (min ax (baseW - logoW))), Fin (max 0 (min ay (baseH - logoH))))"
  using assms
  by (simp add: calculatePositionFromPreset_def js_sub_Fin Math_min_Fin Math_max_Fin)

lemma updateLogoPosition_both:
  assumes "jewelryImage st = Some jw" "logoImage st = Some lg"
  shows "logoSettings (updateLogoPosition preset st) =
    (let logoWidth = js_div (js_mul (img_width jw) (ls_sizePercentage (logoSettings st))) (Fin 100);
         logoHeight = js_div (js_mul (img_height lg) logoWidth) (img_width lg);
         xy = calculatePositionFromPreset preset (img_width jw) (img_height jw)
                    logoWidth logoHeight (ls_margin (logoSettings st))
     in (logoSettings st)\<lparr>ls_position := preset, ls_x := fst xy, ls_y := snd xy,
                       ls_width := logoWidth, ls_height := logoHeight\<rparr>)"
  using assms by (simp add: updateLogoPosition_def Let_def split: prod.splits)

lemma updateLogoSize_both:
  assumes "jewelryImage st = Some jw" "logoImage st = Some lg"
  shows "logoSettings (updateLogoSize percentage st) =
    (let logoWidth = js_div (js_mul (img_width jw) percentage) (Fin 100);
         logoHeight = js_div (js_mul (img_height lg) logoWidth) (img_width lg);
         xy = calculatePositionFromPreset (ls_position (logoSettings st)) (img_width jw)
                (img_height jw) logoWidth logoHeight (ls_margin (logoSettings st))
     in (logoSettings st)\<lparr>ls_sizePercentage := percentage, ls_width := logoWidth,
                       ls_height := logoHeight, ls_x := fst xy, ls_y := snd xy\<rparr>)"
  using assms by (simp add: updateLogoSize_def Let_def split: prod.splits)

lemma calculatePosition_bounds:
  "\<exists>x y. calculatePositionFromPreset preset (Fin baseW) (Fin baseH) (Fin logoW) (Fin logoH)
            (Fin margin) = (Fin x, Fin y)
     \<and> 0 \<le> x \<and> 0 \<le> y
     \<and> (logoW \<le> baseW \<longrightarrow> x \<le> baseW - logoW)
     \<and> (logoH \<le> baseH \<longrightarrow> y \<le> baseH - logoH)
     \<and> (baseW < logoW \<longrightarrow> x = 0)
     \<and> (baseH < logoH \<longrightarrow> y = 0)"
proof -
  obtain ax ay where
    a: "presetAnchor preset (Fin baseW) (Fin baseH) (Fin logoW) (Fin logoH) (Fin margin) =
         (Fin ax, Fin ay)"
    using presetAnchor_finite by blast
  have "0 \<le> max 0 (min ax (baseW - logoW))" "0 \<le> max 0 (min ay (baseH - logoH))"
    "logoW \<le> baseW \<longrightarrow> max 0 (min ax (baseW - logoW)) \<le> baseW - logoW"
    "logoH \<le> baseH \<longrightarrow> max 0 (min ay (baseH - logoH)) \<le> baseH - logoH"
    "baseW < logoW \<longrightarrow> max 0 (min ax (baseW - logoW)) = 0"
    "baseH < logoH \<longrightarrow> max 0 (min ay (baseH - logoH)) = 0"
    by auto
  then show ?thesis
    unfolding calculatePosition_Fin [OF a] by blast
qed



lemma js_div_zero_not_finite: "\<not> is_finite (js_div a (Fin 0))"
  by (cases a) simp_all

section \<open>The error of rounding to a double\<close>

lemma round_half_even_error: "\<bar>of_int (round_half_even y) - y\<bar> \<le> 1 / 2"
proof -
  have "of_int \<lfloor>y\<rfloor> \<le> y" "y < of_int \<lfloor>y\<rfloor> + 1"
    by linarith+
  then show ?thesis
    by (auto simp: round_half_even_def Let_def)
qed

lemma bitlen_rat_bounds:
  assumes "0 < m"
  shows "(2::rat) ^ nat (bitlen m - 1) \<le> of_int m"
    and "(of_int m :: rat) + 1 \<le> 2 ^ nat (bitlen m)"
    and "1 \<le> bitlen m"
proof -
  from bitlen_bounds [OF assms]
  have b: "2 ^ nat (bitlen m - 1) \<le> m" "m + 1 \<le> 2 ^ nat (bitlen m)" by simp_all
  have "(of_int (2 ^ nat (bitlen m - 1)) :: rat) \<le> of_int m"
    using b(1) by (rule of_int_le_iff [THEN iffD2])
  then show "(2::rat) ^ nat (bitlen m - 1) \<le> of_int m" by simp
  have "(of_int (m + 1) :: rat) \<le> of_int (2 ^ nat (bitlen m))"
    using b(2) by (rule of_int_le_iff [THEN iffD2])
  then show "(of_int m :: rat) + 1 \<le> 2 ^ nat (bitlen m)" by simp
  show "1 \<le> bitlen m"
    using assms bitlen_eq_zero_iff [of m] bitlen_nonneg [of m] by linarith
qed

lemma binade_bounds:
  assumes "0 < x"
  shows "power_int 2 (binade x) \<le> x \<and> x < power_int 2 (binade x + 1)"
proof (cases "1 \<le> x")
  case True
  define m where "m = \<lfloor>x\<rfloor>"
  have m: "0 < m" "of_int m \<le> x" "x < of_int m + 1"
    using True unfolding m_def by linarith+
  note b = bitlen_rat_bounds [OF m(1)]
  have e: "binade x = bitlen m - 1"
    using True by (simp add: binade_def m_def)
  have lo: "(power_int 2 (bitlen m - 1) :: rat) = 2 ^ nat (bitlen m - 1)"
    using b(3) by (simp add: power_int_def)
  have hi: "(power_int 2 (bitlen m - 1 + 1) :: rat) = 2 ^ nat (bitlen m)"
    using b(3) by (simp add: power_int_def)
  show ?thesis
    unfolding e lo hi using m(2,3) b(1,2) by linarith
next
  case False
  define y where "y = 1 / x"
  have y: "1 < y" using False assms by (simp add: y_def)
  define m where "m = \<lceil>y\<rceil> - 1"
  have m: "0 < m" "of_int m < y" "y \<le> of_int m + 1"
    using y unfolding m_def by linarith+
  note b = bitlen_rat_bounds [OF m(1)]
  have e: "binade x = - bitlen m"
    using False by (simp add: binade_def m_def y_def)
  have lo: "(power_int 2 (- bitlen m) :: rat) = 1 / 2 ^ nat (bitlen m)"
    using b(3) by (simp add: power_int_def field_simps)
  have hi: "(power_int 2 (- bitlen m + 1) :: rat) = 1 / 2 ^ nat (bitlen m - 1)"
  proof (cases "bitlen m = 1")
    case True
    then show ?thesis by simp
  next
    case False
    with b(3) have "- bitlen m + 1 < 0" "nat (bitlen m - 1) = nat (- (- bitlen m + 1))"
      by simp_all
    then show ?thesis by (simp add: power_int_def field_simps)
  qed
  have h1: "(2::rat) ^ nat (bitlen m - 1) < y"
    using b(1) m(2) by linarith
  have h2: "y \<le> (2::rat) ^ nat (bitlen m)"
    using b(2) m(3) by linarith
  have x: "x = 1 / y" using assms by (simp add: y_def)
  have "1 / 2 ^ nat (bitlen m) \<le> 1 / y"
    using h2 y by (intro divide_left_mono) simp_all
  then have lox: "1 / 2 ^ nat (bitlen m) \<le> x" by (simp only: x)
  have "1 / y < 1 / 2 ^ nat (bitlen m - 1)"
    using h1 y by (intro divide_strict_left_mono) simp_all
  then have hix: "x < 1 / 2 ^ nat (bitlen m - 1)" by (simp only: x)
  show ?thesis
    unfolding e lo hi using lox hix by blast
qed

lemma nearest_double_pos_error:
  assumes "0 < x"
  shows "\<bar>nearest_double_pos x - x\<bar> \<le> x / 2 ^ 53"
proof -
  define q :: rat where "q = power_int 2 (binade x - 52)"
  have q: "0 < q" by (simp add: q_def zero_less_power_int)
  have qe: "q = power_int 2 (binade x) / 2 ^ 52"
    by (simp add: q_def power_int_diff)
  have "nearest_double_pos x - x = (of_int (round_half_even (x / q)) - x / q) * q"
    using q by (simp add: nearest_double_pos_def q_def [symmetric] field_simps)
  then have "\<bar>nearest_double_pos x - x\<bar> = \<bar>of_int (round_half_even (x / q)) - x / q\<bar> * q"
    using q by (simp add: abs_mult)
  also have "\<dots> \<le> (1 / 2) * q"
    using round_half_even_error [of "x / q"] q by (intro mult_right_mono) simp_all
  also have "\<dots> = power_int 2 (binade x) / 2 ^ 53"
    by (simp add: qe)
  also have "\<dots> \<le> x / 2 ^ 53"
    using binade_bounds [OF assms] by (simp add: divide_right_mono)
  finally show ?thesis .
qed

lemma nearest_double_bounds:
  assumes "0 < x"
  shows "x * (9007199254740991 / 9007199254740992) \<le> nearest_double x"
    and "nearest_double x \<le> x * (9007199254740993 / 9007199254740992)"
proof -
  have "\<bar>nearest_double x - x\<bar> \<le> x / 9007199254740992"
    using nearest_double_pos_error [OF assms] assms by (simp add: nearest_double_def)
  then show "x * (9007199254740991 / 9007199254740992) \<le> nearest_double x"
    and "nearest_double x \<le> x * (9007199254740993 / 9007199254740992)"
    by linarith+
qed

section \<open>The preview scale\<close>

lemma setCanvasSize_small:
  assumes "0 \<le> q" and "q < 401"
  shows "setCanvasSize dflt (Fin q) = nat \<lfloor>q\<rfloor>"
proof -
  have f: "0 \<le> \<lfloor>q\<rfloor>" "\<lfloor>q\<rfloor> < 401"
    using assms by linarith+
  then have "\<lfloor>q\<rfloor> mod 4294967296 = \<lfloor>q\<rfloor>" by simp
  then have "toUnsignedLong (Fin q) = nat \<lfloor>q\<rfloor>"
    using assms(1) by simp
  moreover have "nat \<lfloor>q\<rfloor> \<le> 2147483647"
    using f by linarith
  ultimately show ?thesis
    by (simp add: setCanvasSize_def Let_def)
qed

lemma scaled_by_quotient:
  fixes W :: rat
  assumes "0 < W"
  shows "0 < nearest_double (400 / W)"
    and "400 * (9007199254740991 / 9007199254740992) \<le> W * nearest_double (400 / W)"
    and "W * nearest_double (400 / W) \<le> 400 * (9007199254740993 / 9007199254740992)"
proof -
  from assms have A: "0 < 400 / W" by simp
  note b = nearest_double_bounds [OF A]
  have p: "0 < 400 / W * (9007199254740991 / 9007199254740992)"
    using A by simp
  show "0 < nearest_double (400 / W)" by (rule less_le_trans [OF p b(1)])
  have "W * (400 / W * (9007199254740991 / 9007199254740992)) \<le> W * nearest_double (400 / W)"
    using b(1) assms by (intro mult_left_mono) simp_all
  moreover have "W * (400 / W * (9007199254740991 / 9007199254740992)) =
      400 * (9007199254740991 / 9007199254740992)"
    using assms by simp
  ultimately show
    "400 * (9007199254740991 / 9007199254740992) \<le> W * nearest_double (400 / W)"
    by simp
  have "W * nearest_double (400 / W) \<le> W * (400 / W * (9007199254740993 / 9007199254740992))"
    using b(2) assms by (intro mult_left_mono) simp_all
  moreover have "W * (400 / W * (9007199254740993 / 9007199254740992)) =
      400 * (9007199254740993 / 9007199254740992)"
    using assms by simp
  ultimately show
    "W * nearest_double (400 / W) \<le> 400 * (9007199254740993 / 9007199254740992)"
    by simp
qed

lemma preview_products:
  fixes W H s :: rat
  assumes "0 < W" and "0 < H"
    and "s = min (nearest_double (400 / W)) (nearest_double (400 / H))"
  shows "0 < s"
    and "0 \<le> nearest_double (W * s)" and "nearest_double (W * s) < 401"
    and "0 \<le> nearest_double (H * s)" and "nearest_double (H * s) < 401"
    and "399 < nearest_double (W * s) \<or> 399 < nearest_double (H * s)"
proof -
  note a = scaled_by_quotient [OF assms(1)]
  note b = scaled_by_quotient [OF assms(2)]
  show s: "0 < s" using a(1) b(1) by (simp add: assms(3))
  have sa: "s \<le> nearest_double (400 / W)" and sb: "s \<le> nearest_double (400 / H)"
    by (simp_all add: assms(3))
  have Ws: "0 < W * s" and Hs: "0 < H * s"
    using assms(1,2) s by simp_all
  have "W * s \<le> W * nearest_double (400 / W)"
    using sa assms(1) by (intro mult_left_mono) simp_all
  with a(3) have Wu: "W * s \<le> 400 * (9007199254740993 / 9007199254740992)" by linarith
  have "H * s \<le> H * nearest_double (400 / H)"
    using sb assms(2) by (intro mult_left_mono) simp_all
  with b(3) have Hu: "H * s \<le> 400 * (9007199254740993 / 9007199254740992)" by linarith
  note rW = nearest_double_bounds [OF Ws]
  note rH = nearest_double_bounds [OF Hs]
  show "0 \<le> nearest_double (W * s)" using rW(1) Ws by linarith
  show "0 \<le> nearest_double (H * s)" using rH(1) Hs by linarith
  show "nearest_double (W * s) < 401" using rW(2) Wu by linarith
  show "nearest_double (H * s) < 401" using rH(2) Hu by linarith
  show "399 < nearest_double (W * s) \<or> 399 < nearest_double (H * s)"
  proof (cases "nearest_double (400 / W) \<le> nearest_double (400 / H)")
    case True
    then have "s = nearest_double (400 / W)" by (simp add: assms(3))
    with a(2) have "400 * (9007199254740991 / 9007199254740992) \<le> W * s" by (simp only:)
    with rW(1) have "399 < nearest_double (W * s)" by linarith
    then show ?thesis ..
  next
    case False
    then have "s = nearest_double (400 / H)" by (simp add: assms(3))
    with b(2) have "400 * (9007199254740991 / 9007199254740992) \<le> H * s" by (simp only:)
    with rH(1) have "399 < nearest_double (H * s)" by linarith
    then show ?thesis ..
  qed
qed

lemma upscale:
  fixes W H :: rat
  assumes "0 < W" and "W \<le> 399" and "0 < H" and "H \<le> 399"
  shows "1 < min (nearest_double (400 / W)) (nearest_double (400 / H))"
proof -
  have *: "1 < nearest_double (400 / X)" if "0 < X" "X \<le> 399" for X :: rat
  proof -
    define A where "A = 400 / X"
    from that have A: "0 < A" by (simp add: A_def)
    have "400 / 399 \<le> A"
      unfolding A_def using that by (intro divide_left_mono) simp_all
    with nearest_double_bounds(1) [OF A] have "1 < nearest_double A" by linarith
    then show ?thesis by (simp only: A_def)
  qed
  from * [OF assms(1,2)] * [OF assms(3,4)] show ?thesis by simp
qed

lemma updatePreviewCanvas_positive:
  assumes "canvasRef st = Some src" and "previewCanvasRef st = Some pv"
    and "cv_width src = w" and "cv_height src = h" and "0 < w" and "0 < h"
  shows "previewCanvasRef (updatePreviewCanvas st) =
    Some (pv\<lparr>cv_width := nat \<lfloor>nearest_double (of_nat w *
                    min (nearest_double (400 / of_nat w)) (nearest_double (400 / of_nat h)))\<rfloor>,
              cv_height := nat \<lfloor>nearest_double (of_nat h *
                    min (nearest_double (400 / of_nat w)) (nearest_double (400 / of_nat h)))\<rfloor>\<rparr>)"
proof -
  define s :: rat where
    "s = min (nearest_double (400 / of_nat w)) (nearest_double (400 / of_nat h))"
  have W: "(0::rat) < of_nat w" and H: "(0::rat) < of_nat h"
    using assms(5,6) by simp_all
  note p = preview_products [OF W H s_def]
  have cw: "setCanvasSize 300 (Fin (nearest_double (of_nat w * s))) =
      nat \<lfloor>nearest_double (of_nat w * s)\<rfloor>"
    using p(2,3) by (rule setCanvasSize_small)
  have ch: "setCanvasSize 150 (Fin (nearest_double (of_nat h * s))) =
      nat \<lfloor>nearest_double (of_nat h * s)\<rfloor>"
    using p(4,5) by (rule setCanvasSize_small)
  have "previewCanvasRef (updatePreviewCanvas st) =
      Some (pv\<lparr>cv_width := setCanvasSize 300 (Fin (nearest_double (of_nat w * s))),
               cv_height := setCanvasSize 150 (Fin (nearest_double (of_nat h * s)))\<rparr>)"
    using assms W H
    by (simp add: updatePreviewCanvas_def Let_def Math_min_Fin s_def)
  then have "previewCanvasRef (updatePreviewCanvas st) =
      Some (pv\<lparr>cv_width := nat \<lfloor>nearest_double (of_nat w * s)\<rfloor>,
               cv_height := nat \<lfloor>nearest_double (of_nat h * s)\<rfloor>\<rparr>)"
    by (simp only: cw ch)
  then show ?thesis
    by (simp only: s_def)
qed

lemma doubles_1000_334:
  "\<lfloor>nearest_double (1000 * min (nearest_double (400 / 1000)) (nearest_double (400 / 334)))\<rfloor>
     = 400"
  "\<lfloor>nearest_double (334 * min (nearest_double (400 / 1000)) (nearest_double (400 / 334)))\<rfloor>
     = 133"
  by code_simp+

lemma doubles_97_97:
  "\<lfloor>nearest_double (97 * min (nearest_double (400 / 97)) (nearest_double (400 / 97)))\<rfloor> = 399"
  by code_simp

lemma spec_preview_1000_334: "spec_previewSize 400 1000 334 = (400, 134)"
  by code_simp

lemma preview_1000_334:
  "previewCanvasRef (updatePreviewCanvas (previewState 1000 334)) =
     Some \<lparr>cv_width = 400, cv_height = 133\<rparr>"
proof -
  have "previewCanvasRef (updatePreviewCanvas (previewState 1000 334)) =
    Some (\<lparr>cv_width = 300, cv_height = 150\<rparr>
      \<lparr>cv_width := nat \<lfloor>nearest_double (of_nat 1000 *
           min (nearest_double (400 / of_nat 1000)) (nearest_double (400 / of_nat 334)))\<rfloor>,
       cv_height := nat \<lfloor>nearest_double (of_nat 334 *
           min (nearest_double (400 / of_nat 1000)) (nearest_double (400 / of_nat 334)))\<rfloor>\<rparr>)"
    by (rule updatePreviewCanvas_positive [where src = "\<lparr>cv_width = 1000, cv_height = 334\<rparr>"])
      (simp_all add: previewState_def)
  then show ?thesis
    unfolding of_nat_numeral doubles_1000_334 by simp
qed

lemma preview_97_97:
  "previewCanvasRef (updatePreviewCanvas (previewState 97 97)) =
     Some \<lparr>cv_width = 399, cv_height = 399\<rparr>"
proof -
  have "previewCanvasRef (updatePreviewCanvas (previewState 97 97)) =
    Some (\<lparr>cv_width = 300, cv_height = 150\<rparr>
      \<lparr>cv_width := nat \<lfloor>nearest_double (of_nat 97 *
           min (nearest_double (400 / of_nat 97)) (nearest_double (400 / of_nat 97)))\<rfloor>,
       cv_height := nat \<lfloor>nearest_double (of_nat 97 *
           min (nearest_double (400 / of_nat 97)) (nearest_double (400 / of_nat 97)))\<rfloor>\<rparr>)"
    by (rule updatePreviewCanvas_positive [where src = "\<lparr>cv_width = 97, cv_height = 97\<rparr>"])
      (simp_all add: previewState_def)
  then show ?thesis
    unfolding of_nat_numeral doubles_97_97 by simp
qed

section \<open>What the operations leave unchanged\<close>

lemma frame_updateLogoPosition:
  "isProcessing (updateLogoPosition preset st) = isProcessing st"
  "pendingBlobs (updateLogoPosition preset st) = pendingBlobs st"
  "jewelryImage (updateLogoPosition preset st) = jewelryImage st"
  "logoImage (updateLogoPosition preset st) = logoImage st"
  by (simp_all add: updateLogoPosition_def Let_def split: option.splits prod.splits)

lemma frame_updateLogoSize:
  "isProcessing (updateLogoSize v st) = isProcessing st"
  "pendingBlobs (updateLogoSize v st) = pendingBlobs st"
  "jewelryImage (updateLogoSize v st) = jewelryImage st"
  "logoImage (updateLogoSize v st) = logoImage st"
  "ls_position (logoSettings (updateLogoSize v st)) = ls_position (logoSettings st)"
  by (simp_all add: updateLogoSize_def Let_def split: option.splits prod.splits)

lemma frame_updateMargin:
  "isProcessing (updateMargin v st) = isProcessing st"
  "pendingBlobs (updateMargin v st) = pendingBlobs st"
  "jewelryImage (updateMargin v st) = jewelryImage st"
  "logoImage (updateMargin v st) = logoImage st"
  "ls_position (logoSettings (updateMargin v st)) = ls_position (logoSettings st)"
  by (simp_all add: updateMargin_def Let_def split: option.splits prod.splits)

lemma frame_handleFileUpload:
  "isProcessing (handleFileUpload file type st) = isProcessing st"
  "pendingBlobs (handleFileUpload file type st) = pendingBlobs st"
  "logoSettings (handleFileUpload file type st) = logoSettings st"
  by (simp_all add: handleFileUpload_def Let_def split: option.splits prod.splits)

lemma frame_placementEffect:
  "isProcessing (placementEffect st) = isProcessing st"
  "pendingBlobs (placementEffect st) = pendingBlobs st"
  by (simp_all add: placementEffect_def frame_updateLogoPosition)

lemma position_updateLogoPosition:
  "ls_position (logoSettings (updateLogoPosition preset st)) = preset
   \<or> ls_position (logoSettings (updateLogoPosition preset st)) = ls_position (logoSettings st)"
  by (simp add: updateLogoPosition_def Let_def split: option.splits prod.splits)

lemma position_placementEffect:
  "ls_position (logoSettings (placementEffect st)) = ls_position (logoSettings st)"
  using position_updateLogoPosition [of "ls_position (logoSettings st)" st]
  by (auto simp: placementEffect_def)

lemma key_in_presetKeys: "key p \<in> set presetKeys"
  by (cases p) (simp_all add: presetKeys_def positionPresets_def)

section \<open>Invariants of the event loop\<close>

lemma step_position_cases:
  "ls_position (logoSettings (step e st)) = ls_position (logoSettings st)
   \<or> ls_position (logoSettings (step e st)) \<in> set presetKeys"
proof (cases e)
  case (FileUpload f ty)
  then show ?thesis
    by (simp add: position_placementEffect frame_handleFileUpload)
next
  case (PresetClick p)
  then show ?thesis
    using position_updateLogoPosition [of "key p" st] key_in_presetKeys [of p]
    by auto
next
  case (SizeChange v)
  then show ?thesis
    by (simp add: afterRender_def position_placementEffect frame_updateLogoSize)
next
  case (OpacityChange v)
  then show ?thesis by (simp add: setOpacity_def)
next
  case (MarginChange v)
  then show ?thesis
    by (simp add: afterRender_def position_placementEffect frame_updateMargin)
next
  case ResetClick
  then show ?thesis
    using position_updateLogoPosition [of "''TR''" st] key_in_presetKeys [of TR]
    by (auto simp: resetPosition_def)
next
  case DownloadClick
  then show ?thesis by (simp add: downloadImage_def split: option.splits)
next
  case (BlobCallback blob)
  then show ?thesis
    by (simp add: toBlobCallback_def Let_def split: option.splits)
qed

lemma step_position:
  assumes "ls_position (logoSettings st) \<in> set presetKeys"
  shows "ls_position (logoSettings (step e st)) \<in> set presetKeys"
  using assms step_position_cases [of e st] by auto

lemma run_position:
  "ls_position (logoSettings st) \<in> set presetKeys \<Longrightarrow>
   ls_position (logoSettings (run es st)) \<in> set presetKeys"
  by (induction es arbitrary: st) (simp_all add: step_position)

lemma step_exportInvariant:
  assumes "exportInvariant st"
  shows "exportInvariant (step e st)"
proof (cases e)
  case (FileUpload f ty)
  then show ?thesis
    using assms by (simp add: exportInvariant_def frame_placementEffect frame_handleFileUpload)
next
  case (PresetClick p)
  then show ?thesis using assms by (simp add: exportInvariant_def frame_updateLogoPosition)
next
  case (SizeChange v)
  then show ?thesis
    using assms
    by (simp add: exportInvariant_def afterRender_def frame_placementEffect frame_updateLogoSize)
next
  case (OpacityChange v)
  then show ?thesis using assms by (simp add: exportInvariant_def setOpacity_def)
next
  case (MarginChange v)
  then show ?thesis
    using assms
    by (simp add: exportInvariant_def afterRender_def frame_placementEffect frame_updateMargin)
next
  case ResetClick
  then show ?thesis
    using assms by (simp add: exportInvariant_def resetPosition_def frame_updateLogoPosition)
next
  case DownloadClick
  then show ?thesis
    using assms by (simp add: exportInvariant_def downloadImage_def split: option.splits)
next
  case (BlobCallback blob)
  then show ?thesis
    using assms
    by (auto simp: exportInvariant_def toBlobCallback_def Let_def split: option.splits if_splits)
qed

lemma run_exportInvariant:
  "exportInvariant st \<Longrightarrow> exportInvariant (run es st)"
  by (induction es arbitrary: st) (simp_all add: step_exportInvariant)

lemma initial_exportInvariant: "exportInvariant initialState"
  by (simp add: exportInvariant_def initialState_def)

section \<open>The stored rectangle is the derived one\<close>
















section \<open>Claims\<close>

text \<open>
  Claim C1. With both images present, finite sizes and a logo of positive natural width,
  \<^verbatim>\<open>updateLogoPosition\<close> stores the logo width \<open>baseW * sizePercentage / 100\<close> and the logo
  height \<open>logoNaturalH * logoWidth / logoNaturalW\<close>; for each of the nine presets the
  coordinates before the clamp are those of the specification (left is the margin,
  centre \<open>(baseW - logoW) / 2\<close>, right \<open>baseW - logoW - margin\<close>; top is the margin, middle
  \<open>(baseH - logoH) / 2\<close>, bottom \<open>baseH - logoH - margin\<close>), and the stored coordinates are
  these anchors clamped.
\<close>

theorem C1_geometry_formulas:
  assumes "jewelryImage st = Some jw" and "logoImage st = Some lg"
    and "img_width jw = Fin baseW" and "img_height jw = Fin baseH"
    and "img_width lg = Fin logoNaturalW" and "img_height lg = Fin logoNaturalH"
    and "0 < logoNaturalW"
    and "ls_sizePercentage (logoSettings st) = Fin sizePercentage"
    and "ls_margin (logoSettings st) = Fin margin"
  shows "let logoW = spec_logoWidth baseW sizePercentage;
             logoH = spec_logoHeight logoNaturalH logoW logoNaturalW;
             anchorX = spec_anchor_x (spec_horizontal p) baseW logoW margin;
             anchorY = spec_anchor_y (spec_vertical p) baseH logoH margin;
             s' = logoSettings (updateLogoPosition (key p) st)
         in ls_width s' = Fin logoW \<and> ls_height s' = Fin logoH
            \<and> presetAnchor (key p) (Fin baseW) (Fin baseH) (Fin logoW) (Fin logoH) (Fin margin)
                = (Fin anchorX, Fin anchorY)
            \<and> ls_x s' = Fin (max 0 (min anchorX (baseW - logoW)))
            \<and> ls_y s' = Fin (max 0 (min anchorY (baseH - logoH)))"
proof -
  define logoW where "logoW = spec_logoWidth baseW sizePercentage"
  define logoH where "logoH = spec_logoHeight logoNaturalH logoW logoNaturalW"
  have w: "js_div (js_mul (Fin baseW) (Fin sizePercentage)) (Fin 100) = Fin logoW"
    unfolding logoW_def by (rule logoWidth_Fin)
  have h: "js_div (js_mul (Fin logoNaturalH) (Fin logoW)) (Fin logoNaturalW) = Fin logoH"
    unfolding logoH_def using assms(7) by (intro logoHeight_Fin) simp
  have a: "presetAnchor (key p) (Fin baseW) (Fin baseH) (Fin logoW) (Fin logoH) (Fin margin) =
     (Fin (spec_anchor_x (spec_horizontal p) baseW logoW margin),
      Fin (spec_anchor_y (spec_vertical p) baseH logoH margin))"
    by (rule presetAnchor_Fin)
  have s: "logoSettings (updateLogoPosition (key p) st) =
     (logoSettings st)\<lparr>ls_position := key p,
        ls_x := Fin (max 0 (min (spec_anchor_x (spec_horizontal p) baseW logoW margin) (baseW - logoW))),
        ls_y := Fin (max 0 (min (spec_anchor_y (spec_vertical p) baseH logoH margin) (baseH - logoH))),
        ls_width := Fin logoW, ls_height := Fin logoH\<rparr>"
    unfolding updateLogoPosition_both [OF assms(1,2)] Let_def assms(3,4,5,6,8,9) w h
      calculatePosition_Fin [OF a]
    by simp
  show ?thesis
    unfolding Let_def logoW_def [symmetric] logoH_def [symmetric]
    using a s by simp
qed

theorem C1_geometry_formulas_witness:
  "jewelryImage scenarioState = Some (sampleImage ''base'' 1000 800)
   \<and> logoImage scenarioState = Some (sampleImage ''logo'' 200 100)
   \<and> (0::rat) < 200
   \<and> ls_sizePercentage (logoSettings scenarioState) = Fin 15
   \<and> ls_margin (logoSettings scenarioState) = Fin 20
   \<and> ls_width (logoSettings (updateLogoPosition (key BC) scenarioState)) = Fin 150
   \<and> ls_height (logoSettings (updateLogoPosition (key BC) scenarioState)) = Fin 75
   \<and> presetAnchor (key BC) (Fin 1000) (Fin 800) (Fin 150) (Fin 75) (Fin 20) = (Fin 425, Fin 705)
   \<and> ls_x (logoSettings (updateLogoPosition (key BC) scenarioState)) = Fin 425
   \<and> ls_y (logoSettings (updateLogoPosition (key BC) scenarioState)) = Fin 705"
  using C1_geometry_formulas [of scenarioState "sampleImage ''base'' 1000 800"
      "sampleImage ''logo'' 200 100" 1000 800 200 100 15 20 BC]
  by (simp add: scenarioState_def initialState_def initialSettings_def sampleImage_def
      spec_logoWidth_def spec_logoHeight_def Let_def)

text \<open>
  Claim C2. For each of the nine presets and finite sizes and margin: when the logo is no
  larger than the base in both directions, the resolved coordinates are finite with
  \<open>0 \<le> x \<le> baseW - logoW\<close> and \<open>0 \<le> y \<le> baseH - logoH\<close>; when the logo is wider than the
  base the clamp gives \<open>x = 0\<close>, and when it is higher, \<open>y = 0\<close>.
\<close>

theorem C2_clamped_position:
  "(logoW \<le> baseW \<and> logoH \<le> baseH \<longrightarrow>
      (\<exists>x y. calculatePositionFromPreset (key p) (Fin baseW) (Fin baseH) (Fin logoW) (Fin logoH)
                (Fin margin) = (Fin x, Fin y)
          \<and> 0 \<le> x \<and> x \<le> baseW - logoW \<and> 0 \<le> y \<and> y \<le> baseH - logoH))
   \<and> (baseW < logoW \<longrightarrow>
        fst (calculatePositionFromPreset (key p) (Fin baseW) (Fin baseH) (Fin logoW) (Fin logoH)
              (Fin margin)) = Fin 0)
   \<and> (baseH < logoH \<longrightarrow>
        snd (calculatePositionFromPreset (key p) (Fin baseW) (Fin baseH) (Fin logoW) (Fin logoH)
              (Fin margin)) = Fin 0)"
  using calculatePosition_bounds [of "key p" baseW baseH logoW logoH margin]
  by auto

theorem C2_clamped_position_witness:
  "((150::rat) \<le> 1000 \<and> (75::rat) \<le> 800)
   \<and> calculatePositionFromPreset (key BR) (Fin 1000) (Fin 800) (Fin 150) (Fin 75) (Fin 20)
       = (Fin 830, Fin 705)
   \<and> (100::rat) < 150 \<and> (100::rat) < 200
   \<and> calculatePositionFromPreset (key BR) (Fin 100) (Fin 100) (Fin 150) (Fin 200) (Fin 20)
       = (Fin 0, Fin 0)"
  using C2_clamped_position [of 150 1000 75 800 BR 20]
    C2_clamped_position [of 150 100 200 100 BR 20]
  by (simp add: calculatePositionFromPreset_def presetAnchor_def js_sub_Fin Math_min_Fin
      Math_max_Fin)




text \<open>
  Claim C4 says that a logo of natural width zero is rejected with an error and that the
  division is never evaluated with it. After a base of 1000 by 800, a logo that decodes
  to 0 by 100 is stored, nothing is reported, and the stored height is \<open>Infinity\<close>.
\<close>

theorem C4_counterexample:
  "logoImage (run [FileUpload (sampleFile ''base'' 1000 800) Jewelry,
                   FileUpload (sampleFile ''logo'' 0 100) Logo] initialState)
     = Some (sampleImage ''logo'' 0 100)
   \<and> alerts (run [FileUpload (sampleFile ''base'' 1000 800) Jewelry,
                   FileUpload (sampleFile ''logo'' 0 100) Logo] initialState) = []
   \<and> ls_height (logoSettings (run [FileUpload (sampleFile ''base'' 1000 800) Jewelry,
                   FileUpload (sampleFile ''logo'' 0 100) Logo] initialState)) = PInf"
  by (simp add: imageStored_def sampleFile_def sampleImage_def handleFileUpload_def
      placementEffect_def initialState_def initialSettings_def updateLogoPosition_def Let_def
      calculatePositionFromPreset_def presetAnchor_def js_sub_def Math_min_def Math_max_def)

text \<open>
  Claim C4, amended. A logo file of an image type whose natural width is zero is accepted
  like any other image: the logo slot is replaced and no message is shown; with a base
  image present the effect evaluates the aspect-ratio division with that width, so the
  stored height is not a finite number, and it is not one after a later change of the
  size either.
\<close>

theorem C4_zero_width_logo_accepted:
  assumes "prefix ''image/'' (file_type file)" and "file_decoded file = Some (Fin 0, h)"
    and "jewelryImage st = Some jw"
  shows "logoImage (step (FileUpload file Logo) st) =
           Some \<lparr>img_file = file, img_url = file_dataURL file, img_width = Fin 0, img_height = h\<rparr>
       \<and> alerts (step (FileUpload file Logo) st) = alerts st
       \<and> \<not> is_finite (ls_height (logoSettings (step (FileUpload file Logo) st)))
       \<and> \<not> is_finite (ls_height (logoSettings
             (updateLogoSize percentage (step (FileUpload file Logo) st))))"
proof -
  define lg where
    "lg = \<lparr>img_file = file, img_url = file_dataURL file, img_width = Fin 0, img_height = h\<rparr>"
  define st1 where "st1 = st\<lparr>logoImage := Some lg\<rparr>"
  have up: "handleFileUpload file Logo st = st1"
    using assms(1,2) by (simp add: handleFileUpload_def st1_def lg_def)
  have j1: "jewelryImage st1 = Some jw" and l1: "logoImage st1 = Some lg"
    using assms(3) by (simp_all add: st1_def)
  define st2 where "st2 = updateLogoPosition (ls_position (logoSettings st1)) st1"
  have st: "step (FileUpload file Logo) st = st2"
    using assms(1,2) j1 l1 by (simp add: imageStored_def up placementEffect_def st2_def)
  have w: "img_width lg = Fin 0" by (simp add: lg_def)
  have img2: "jewelryImage st2 = Some jw" "logoImage st2 = Some lg" "alerts st2 = alerts st"
    using j1 l1
    by (simp_all add: st2_def updateLogoPosition_def Let_def st1_def split: prod.splits)
  have h2: "\<not> is_finite (ls_height (logoSettings st2))"
    unfolding st2_def updateLogoPosition_both [OF j1 l1] w
    by (simp add: Let_def js_div_zero_not_finite)
  have h3: "\<not> is_finite (ls_height (logoSettings (updateLogoSize percentage st2)))"
    unfolding updateLogoSize_both [OF img2(1,2)] w
    by (simp add: Let_def js_div_zero_not_finite)
  show ?thesis
    unfolding st using img2 h2 h3 by (simp add: lg_def)
qed

theorem C4_zero_width_logo_accepted_witness:
  "prefix ''image/'' (file_type (sampleFile ''logo'' 0 100))
   \<and> file_decoded (sampleFile ''logo'' 0 100) = Some (Fin 0, Fin 100)
   \<and> jewelryImage scenarioState = Some (sampleImage ''base'' 1000 800)
   \<and> logoImage (step (FileUpload (sampleFile ''logo'' 0 100) Logo) scenarioState) =
       Some (sampleImage ''logo'' 0 100)
   \<and> alerts (step (FileUpload (sampleFile ''logo'' 0 100) Logo) scenarioState) = []
   \<and> \<not> is_finite (ls_height (logoSettings
         (step (FileUpload (sampleFile ''logo'' 0 100) Logo) scenarioState)))"
  using C4_zero_width_logo_accepted [of "sampleFile ''logo'' 0 100" "Fin 100" scenarioState
      "sampleImage ''base'' 1000 800" "Fin 30"]
  by (simp add: sampleFile_def sampleImage_def scenarioState_def initialState_def)

text \<open>
  Claim C5. Base 1000 by 800, logo of natural size 200 by 100, size percentage 15, margin
  20, preset \<open>TR\<close>: the logo is 150 wide and 75 high, and its anchor is (830, 20).
\<close>

theorem C5_scenario_top_right:
  "ls_width (logoSettings (updateLogoPosition ''TR'' scenarioState)) = Fin 150
   \<and> ls_height (logoSettings (updateLogoPosition ''TR'' scenarioState)) = Fin 75
   \<and> ls_x (logoSettings (updateLogoPosition ''TR'' scenarioState)) = Fin 830
   \<and> ls_y (logoSettings (updateLogoPosition ''TR'' scenarioState)) = Fin 20"
  by (simp add: updateLogoPosition_def scenarioState_def initialState_def initialSettings_def
      sampleImage_def calculatePositionFromPreset_def Let_def presetAnchor_def js_sub_Fin
      Math_min_Fin Math_max_Fin)

text \<open>
  Claim C6 says that the preview has the size \<open>round (w * scale)\<close> by \<open>round (h * scale)\<close>.
  For a source of 1000 by 334 the scale is the double next to \<open>2/5\<close> and the second
  product is a double next to \<open>133.6\<close>; the canvas truncates it, so the preview is 400 by
  133, not 400 by 134.
\<close>

theorem C6_counterexample:
  "previewCanvasRef (updatePreviewCanvas (previewState 1000 334)) \<noteq>
     Some \<lparr>cv_width = nat (fst (spec_previewSize 400 1000 334)),
           cv_height = nat (snd (spec_previewSize 400 1000 334))\<rparr>"
  by (simp add: preview_1000_334 spec_preview_1000_334)

text \<open>
  Claim C6, amended. For a source canvas of positive width \<open>w\<close> and height \<open>h\<close>, with a preview
  canvas mounted, \<^verbatim>\<open>updatePreviewCanvas\<close> computes \<open>scale = min (400 / w) (400 / h)\<close> in double
  arithmetic, and the preview gets the size \<open>w * scale\<close> by \<open>h * scale\<close>, each product a
  double truncated to an integer (not rounded); when the source exceeds 400 in at least
  one dimension, the larger preview dimension is 399 or 400; and when both \<open>w\<close> and \<open>h\<close> are
  below 400 the scale exceeds 1 (nothing caps it).
\<close>

theorem C6_preview_size:
  assumes "canvasRef st = Some src" and "previewCanvasRef st = Some pv"
    and "cv_width src = w" and "cv_height src = h" and "0 < w" and "0 < h"
  shows "let scale = min (nearest_double (400 / of_nat w)) (nearest_double (400 / of_nat h));
             previewW = nat \<lfloor>nearest_double (of_nat w * scale)\<rfloor>;
             previewH = nat \<lfloor>nearest_double (of_nat h * scale)\<rfloor>
         in previewCanvasRef (updatePreviewCanvas st) =
              Some (pv\<lparr>cv_width := previewW, cv_height := previewH\<rparr>)
            \<and> (400 < w \<or> 400 < h \<longrightarrow>
                 399 \<le> max previewW previewH \<and> max previewW previewH \<le> 400)
            \<and> (w < 400 \<and> h < 400 \<longrightarrow> 1 < scale)"
proof -
  define s :: rat where
    "s = min (nearest_double (400 / of_nat w)) (nearest_double (400 / of_nat h))"
  define pw where "pw = \<lfloor>nearest_double (of_nat w * s)\<rfloor>"
  define ph where "ph = \<lfloor>nearest_double (of_nat h * s)\<rfloor>"
  have W: "(0::rat) < of_nat w" and H: "(0::rat) < of_nat h"
    using assms(5,6) by simp_all
  note p = preview_products [OF W H s_def]
  have bw: "0 \<le> pw" "pw \<le> 400" and bh: "0 \<le> ph" "ph \<le> 400"
    unfolding pw_def ph_def using p(2,3,4,5) by linarith+
  have "399 \<le> pw \<or> 399 \<le> ph"
    unfolding pw_def ph_def using p(6) by (auto simp: le_floor_iff)
  with bw bh have m: "399 \<le> max (nat pw) (nat ph)" "max (nat pw) (nat ph) \<le> 400"
    by auto
  have u: "1 < s" if "w < 400" "h < 400"
  proof -
    from that have "(of_nat w :: rat) \<le> of_nat 399" "(of_nat h :: rat) \<le> of_nat 399"
      by (simp_all only: of_nat_le_iff)
    then have "(of_nat w :: rat) \<le> 399" "(of_nat h :: rat) \<le> 399" by simp_all
    with W H show ?thesis unfolding s_def by (intro upscale)
  qed
  have c: "previewCanvasRef (updatePreviewCanvas st) =
      Some (pv\<lparr>cv_width := nat pw, cv_height := nat ph\<rparr>)"
    unfolding pw_def ph_def s_def using assms by (rule updatePreviewCanvas_positive)
  show ?thesis
    unfolding Let_def s_def [symmetric] pw_def [symmetric] ph_def [symmetric]
    using c m u by blast
qed

theorem C6_preview_size_witness:
  "canvasRef (previewState 1000 334) = Some \<lparr>cv_width = 1000, cv_height = 334\<rparr>
   \<and> previewCanvasRef (previewState 1000 334) = Some \<lparr>cv_width = 300, cv_height = 150\<rparr>
   \<and> ((400::nat) < 1000 \<or> (400::nat) < 334)
   \<and> previewCanvasRef (updatePreviewCanvas (previewState 1000 334)) =
       Some \<lparr>cv_width = 400, cv_height = 133\<rparr>
   \<and> (399::nat) \<le> max 400 133 \<and> max 400 133 \<le> (400::nat)
   \<and> (97::nat) < 400
   \<and> previewCanvasRef (updatePreviewCanvas (previewState 97 97)) =
       Some \<lparr>cv_width = 399, cv_height = 399\<rparr>
   \<and> 1 < min (nearest_double (400 / 97)) (nearest_double (400 / 97))"
proof -
  have a: "canvasRef (previewState 1000 334) = Some \<lparr>cv_width = 1000, cv_height = 334\<rparr>"
    "previewCanvasRef (previewState 1000 334) = Some \<lparr>cv_width = 300, cv_height = 150\<rparr>"
    "canvasRef (previewState 97 97) = Some \<lparr>cv_width = 97, cv_height = 97\<rparr>"
    "previewCanvasRef (previewState 97 97) = Some \<lparr>cv_width = 300, cv_height = 150\<rparr>"
    by (simp_all add: previewState_def)
  have big: "previewCanvasRef (updatePreviewCanvas (previewState 1000 334)) =
       Some \<lparr>cv_width = 400, cv_height = 133\<rparr>"
    using C6_preview_size [OF a(1,2), of 1000 334]
    unfolding Let_def of_nat_numeral doubles_1000_334 by simp
  have small: "previewCanvasRef (updatePreviewCanvas (previewState 97 97)) =
       Some \<lparr>cv_width = 399, cv_height = 399\<rparr>
     \<and> 1 < min (nearest_double (400 / 97)) (nearest_double (400 / 97))"
    using C6_preview_size [OF a(3,4), of 97 97]
    unfolding Let_def of_nat_numeral doubles_97_97 by simp
  from a big small show ?thesis by simp
qed

text \<open>
  Claim C7 says that a failed encoding is reported to the user. When the callback of
  \<^verbatim>\<open>toBlob\<close> receives \<^verbatim>\<open>null\<close>, no message is shown.
\<close>

theorem C7_counterexample:
  "\<not> errorReported scenarioState (run [DownloadClick, BlobCallback None] scenarioState)"
  by (simp add: errorReported_def scenarioState_def initialState_def controlsRendered_def
      downloadImage_def toBlobCallback_def)

text \<open>
  Claim C7, amended. When the encoding yields no blob, nothing is reported and nothing is
  downloaded; the busy flag is cleared, so the user may retry. While the busy flag is set
  a click on the download button does nothing, and in every reachable state at most one
  export is in flight.
\<close>

theorem C7_export_failure_silent:
  "\<not> errorReported st (toBlobCallback None st)
   \<and> downloads (toBlobCallback None st) = downloads st
   \<and> \<not> isProcessing (toBlobCallback None st)
   \<and> (isProcessing st \<longrightarrow> step DownloadClick st = st)
   \<and> pendingBlobs (run es initialState) \<le> 1"
proof -
  have "exportInvariant (run es initialState)"
    using initial_exportInvariant by (rule run_exportInvariant)
  then have "pendingBlobs (run es initialState) \<le> 1"
    by (simp add: exportInvariant_def split: if_splits)
  then show ?thesis
    by (simp add: errorReported_def toBlobCallback_def)
qed

theorem C7_export_failure_silent_witness:
  "isProcessing (step DownloadClick scenarioState)
   \<and> step DownloadClick (step DownloadClick scenarioState) = step DownloadClick scenarioState
   \<and> \<not> errorReported (step DownloadClick scenarioState)
         (toBlobCallback None (step DownloadClick scenarioState))
   \<and> \<not> isProcessing (toBlobCallback None (step DownloadClick scenarioState))
   \<and> pendingBlobs (run [FileUpload (sampleFile ''base'' 1000 800) Jewelry,
         FileUpload (sampleFile ''logo'' 200 100) Logo, DownloadClick, DownloadClick]
         initialState) \<le> 1"
  using C7_export_failure_silent [of "step DownloadClick scenarioState"
      "[FileUpload (sampleFile ''base'' 1000 800) Jewelry,
        FileUpload (sampleFile ''logo'' 200 100) Logo, DownloadClick, DownloadClick]"]
  by (simp add: scenarioState_def initialState_def controlsRendered_def downloadImage_def)

text \<open>
  Claim C8. In a state with both images, a change of the opacity slider stores the new
  opacity and leaves \<open>x\<close>, \<open>y\<close>, width, height, size percentage, margin and position as they
  were: the rectangle is not recomputed.
\<close>

theorem C8_opacity_frame:
  assumes "jewelryImage st \<noteq> None" and "logoImage st \<noteq> None"
  shows "ls_opacity (logoSettings (step (OpacityChange v) st)) = v
       \<and> ls_x (logoSettings (step (OpacityChange v) st)) = ls_x (logoSettings st)
       \<and> ls_y (logoSettings (step (OpacityChange v) st)) = ls_y (logoSettings st)
       \<and> ls_width (logoSettings (step (OpacityChange v) st)) = ls_width (logoSettings st)
       \<and> ls_height (logoSettings (step (OpacityChange v) st)) = ls_height (logoSettings st)
       \<and> ls_sizePercentage (logoSettings (step (OpacityChange v) st))
           = ls_sizePercentage (logoSettings st)
       \<and> ls_margin (logoSettings (step (OpacityChange v) st)) = ls_margin (logoSettings st)
       \<and> ls_position (logoSettings (step (OpacityChange v) st))
           = ls_position (logoSettings st)"
  using assms by (simp add: controlsRendered_def setOpacity_def)

theorem C8_opacity_frame_witness:
  "jewelryImage scenarioState \<noteq> None \<and> logoImage scenarioState \<noteq> None
   \<and> logoSettings (step (OpacityChange (Fin 40)) scenarioState)
       = initialSettings\<lparr>ls_opacity := Fin 40\<rparr>"
  using C8_opacity_frame [of scenarioState "Fin 40"]
  by (simp add: scenarioState_def initialState_def controlsRendered_def setOpacity_def)

text \<open>
  Claim C9. The stored position starts as \<open>TR\<close>; every event leaves it as it was or sets
  it to one of the nine preset tokens; so after any sequence of events it is one of the
  nine tokens, and never \<open>custom\<close>.
\<close>

theorem C9_position_is_preset:
  "ls_position (logoSettings initialState) = ''TR''
   \<and> (ls_position (logoSettings (step e st)) = ls_position (logoSettings st)
      \<or> ls_position (logoSettings (step e st)) \<in> set presetKeys)
   \<and> ls_position (logoSettings (run es initialState)) \<in> set presetKeys
   \<and> ls_position (logoSettings (run es initialState)) \<noteq> ''custom''"
proof -
  have i: "ls_position (logoSettings initialState) = ''TR''"
    by (simp add: initialState_def initialSettings_def)
  then have "ls_position (logoSettings initialState) \<in> set presetKeys"
    using key_in_presetKeys [of TR] by simp
  then have r: "ls_position (logoSettings (run es initialState)) \<in> set presetKeys"
    by (rule run_position)
  have "''custom'' \<notin> set presetKeys"
    by (simp add: presetKeys_def positionPresets_def)
  with r have "ls_position (logoSettings (run es initialState)) \<noteq> ''custom''"
    by auto
  with i r step_position_cases [of e st] show ?thesis by blast
qed

theorem C9_position_is_preset_witness:
  "ls_position (logoSettings (run [FileUpload (sampleFile ''base'' 1000 800) Jewelry,
       FileUpload (sampleFile ''logo'' 200 100) Logo, PresetClick BL, SizeChange (Fin 30),
       MarginChange (Fin 0)] initialState)) \<in> set presetKeys
   \<and> ls_position (logoSettings (step (PresetClick BL) scenarioState)) = ''BL''"
  using C9_position_is_preset [of "PresetClick BL" scenarioState
      "[FileUpload (sampleFile ''base'' 1000 800) Jewelry,
        FileUpload (sampleFile ''logo'' 200 100) Logo, PresetClick BL, SizeChange (Fin 30),
        MarginChange (Fin 0)]"]
  by (simp add: scenarioState_def initialState_def controlsRendered_def updateLogoPosition_def
      Let_def split: prod.splits)

text \<open>
  Claim C10. When the base image or the logo image is absent, \<^verbatim>\<open>updateLogoPosition\<close>,
  \<^verbatim>\<open>updateLogoSize\<close> and \<^verbatim>\<open>updateMargin\<close> return at once: the whole state, and so every field
  of the settings, is unchanged.
\<close>

theorem C10_absent_image_noop:
  assumes "jewelryImage st = None \<or> logoImage st = None"
  shows "updateLogoPosition preset st = st \<and> updateLogoSize percentage st = st
         \<and> updateMargin margin st = st"
  using assms
  by (auto simp: updateLogoPosition_def updateLogoSize_def updateMargin_def split: option.splits)

theorem C10_absent_image_noop_witness:
  "(jewelryImage initialState = None \<or> logoImage initialState = None)
   \<and> updateLogoPosition ''BL'' initialState = initialState
   \<and> updateLogoSize (Fin 30) initialState = initialState
   \<and> updateMargin (Fin 50) initialState = initialState"
  using C10_absent_image_noop [of initialState "''BL''" "Fin 30" "Fin 50"]
  by (simp add: initialState_def)

end
